theory Spec2Isabelle
  imports Complex_Main
begin

unbundle bit_operations_syntax

section \<open>The routine pmc\_0d\_model2b of pmc\_02\_model2b.py\<close>

text \<open>
  The file is a Python transcription of an IDL routine. It is read with Python's
  own rules: operator precedence (\<^verbatim>\<open>|\<close> and \<^verbatim>\<open>&\<close> bind tighter than the
  comparisons, and comparisons chain), case-sensitive names, indexing with negative
  indices counted from the end, and exceptions. The conventions of the embedding:

  \<^item> \<^verbatim>\<open>z, t, p, h2o\<close> are float64 arrays (header, lines 9-12): lists of
    \<open>real\<close>. Floating-point numbers are idealised as reals, so rounding, infinities
    and not-a-number are outside the model;
  \<^item> \<^verbatim>\<open>vpop\<close> is a Python integer: \<open>int\<close>;
  \<^item> \<^verbatim>\<open>constdz\<close> is the keyword of the header (line 47): \<open>None\<close> when unset;
  \<^item> the literals written \<^verbatim>\<open>(1.0e6.0)\<close>, \<^verbatim>\<open>(1.0e2.0)\<close>, \<^verbatim>\<open>(1.0e-6.0)\<close> are
    read as \<open>1.0e6\<close>, \<open>1.0e2\<close>, \<open>1.0e-6\<close>, and \<^verbatim>\<open>numpy.zeroes(nz)\<close> as the
    array of \<open>nz\<close> zeros;
  \<^item> an exception ends the run: every stage returns \<open>error + result\<close>.
\<close>

datatype error = SystemExit | NameError | TypeError | ValueError | IndexError

subsection \<open>Python scalars and the bitwise operators\<close>

text \<open>
  A Python scalar is an integer (the literals \<^verbatim>\<open>0\<close>, \<^verbatim>\<open>1\<close>, \<^verbatim>\<open>3\<close>, \<^verbatim>\<open>80\<close>) or a
  float. \<^verbatim>\<open>&\<close> is defined on two integers only; with a float operand Python and
  numpy raise TypeError.
\<close>

datatype pyval = PyInt int | PyFloat real

fun py_num :: "pyval \<Rightarrow> real" where
  "py_num (PyInt n) = of_int n"
| "py_num (PyFloat x) = x"

fun py_and :: "pyval \<Rightarrow> pyval \<Rightarrow> error + pyval" where
  "py_and (PyInt a) (PyInt b) = Inr (PyInt (a AND b))"
| "py_and (PyInt a) (PyFloat y) = Inl TypeError"
| "py_and (PyFloat x) b = Inl TypeError"

text \<open>A numpy array carries its dtype; \<^verbatim>\<open>n & a\<close> is refused for a float64 array
  whatever its length, and is elementwise on an integer array.\<close>

datatype nparray = IntArr "int list" | FloatArr "real list"

fun np_and :: "int \<Rightarrow> nparray \<Rightarrow> error + int list" where
  "np_and n (IntArr xs) = Inr (map (\<lambda>x. n AND x) xs)"
| "np_and n (FloatArr xs) = Inl TypeError"

text \<open>Indexing an array with an integer: \<open>-len .. -1\<close> count from the end,
  anything else out of \<open>0 ..< len\<close> raises IndexError.\<close>

definition np_index :: "real list \<Rightarrow> int \<Rightarrow> error + real" where
  "np_index xs i =
     (if 0 \<le> i \<and> i < int (length xs) then Inr (xs ! nat i)
      else if - int (length xs) \<le> i \<and> i < 0 then Inr (xs ! nat (int (length xs) + i))
      else Inl IndexError)"

text \<open>The builtins \<^verbatim>\<open>min\<close> and \<^verbatim>\<open>max\<close> over an array; an empty argument raises
  ValueError.\<close>

definition py_min :: "real list \<Rightarrow> error + real" where
  "py_min xs = (case xs of [] \<Rightarrow> Inl ValueError | x # r \<Rightarrow> Inr (fold min r x))"

definition py_max :: "real list \<Rightarrow> error + real" where
  "py_max xs = (case xs of [] \<Rightarrow> Inl ValueError | x # r \<Rightarrow> Inr (fold max r x))"

subsection \<open>Constants (lines 58-61)\<close>

definition Mww :: real where "Mww = 18.0"
definition di :: real where "di = 0.93"
definition R_gas :: real where "R_gas = 8.314"
definition Sti :: real where "Sti = 0.12"

subsection \<open>Housekeeping (lines 65-82)\<close>

record outputs =
  t_ice :: "real list"
  p_ice :: "real list"
  s_ice :: "real list"
  v_ice :: "real list"
  m_ice :: "real list"
  h2o_sat :: "real list"
  h2o_ice :: "real list"
  Zmax :: real
  Ztop :: real
  Zbot :: real
  iwc :: real

text \<open>Line 67, \<^verbatim>\<open>if (vpop < 1 | vpop > 3)\<close>: Python reads it as the chain
  \<^verbatim>\<open>vpop < (1 | vpop) > 3\<close>, that is \<^verbatim>\<open>vpop < (1 | vpop) and (1 | vpop) > 3\<close>.\<close>

definition vpop_not_valid :: "int \<Rightarrow> bool" where
  "vpop_not_valid vpop = (vpop < (1 OR vpop) \<and> (1 OR vpop) > 3)"

definition allocate :: "nat \<Rightarrow> outputs" where
  "allocate nz =
     \<lparr>t_ice = replicate nz 0, p_ice = replicate nz 0, s_ice = replicate nz 0,
      v_ice = replicate nz 0, m_ice = replicate nz 0, h2o_sat = replicate nz (0 + 999),
      h2o_ice = replicate nz 0, Zmax = 0, Ztop = 0, Zbot = 0, iwc = 0\<rparr>"

definition housekeeping :: "int \<Rightarrow> nat \<Rightarrow> error + outputs" where
  "housekeeping vpop nz = (if vpop_not_valid vpop then Inl SystemExit else Inr (allocate nz))"

subsection \<open>The table of saturation vapour pressure (lines 86-90)\<close>

text \<open>\<^verbatim>\<open>tx = numpy.arange(300) * 3. + 50.\<close> and, by the value of \<^verbatim>\<open>vpop\<close>, the
  array \<^verbatim>\<open>px\<close>. The three tests are exclusive; when none holds the name \<^verbatim>\<open>px\<close> is
  never bound (\<open>None\<close>), and its first use raises NameError.\<close>

definition tx :: "real list" where
  "tx = map (\<lambda>n. real n * 3 + 50) [0..<300]"

definition px :: "int \<Rightarrow> real list option" where
  "px vpop =
     (if vpop = 1 then
        Some (map (\<lambda>T. 0.01 * exp (9.550426 - 5723.265 / T + 3.53068 * ln T - 0.00728332 * T)) tx)
      else if vpop = 2 then Some (map (\<lambda>T. 0.01 * 10 powr (14.88 - 3059.0 / T)) tx)
      else if vpop = 3 then Some (map (\<lambda>T. 0.01 * exp (28.868 - 6132.935 / T)) tx)
      else None)"

subsection \<open>One level: equilibrium properties (lines 100-120)\<close>

text \<open>The right-hand sides of lines 100-102 at the temperature \<open>T = t[i]\<close>; \<open>None\<close>
  when no test holds and \<^verbatim>\<open>p_ice[i]\<close> is left as it is.\<close>

definition sat_vp :: "int \<Rightarrow> real \<Rightarrow> real option" where
  "sat_vp vpop T =
     (if vpop = 1 then
        Some (0.01 * exp (9.550426 - 5723.265 / T + 3.53068 * ln T - 0.00728332 * T))
      else if vpop = 2 then Some (0.01 * 10 powr (14.88 - 3059.0 / T))
      else if vpop = 3 then Some (0.01 * exp (28.868 - 6132.935 / T))
      else None)"

text \<open>Lines 100-120 with \<open>T = t[i]\<close>, \<open>P = p[i]\<close>, \<open>q = h2o[i]\<close>. Every write is to
  index \<open>i\<close>. (A zero \<open>P\<close> gives an infinity or not-a-number in numpy and no exception;
  the reals do not show it.)\<close>

definition equilibrium :: "int \<Rightarrow> real \<Rightarrow> real \<Rightarrow> real \<Rightarrow> nat \<Rightarrow> outputs \<Rightarrow> outputs" where
  "equilibrium vpop T P q i st =
     (let pv = (case sat_vp vpop T of Some v \<Rightarrow> v | None \<Rightarrow> p_ice st ! i);
          hs = 1000000 * pv / P;
          st1 = st\<lparr>p_ice := (p_ice st)[i := pv],
                    h2o_sat := (h2o_sat st)[i := hs],
                    s_ice := (s_ice st)[i := q / hs]\<rparr>;
          q_xs = q - hs
      in if q_xs > 0 then
           (let n_xs = P * 100 * q_xs * 0.000001 / (R_gas * T)
            in st1\<lparr>v_ice := (v_ice st1)[i := 1000000 * n_xs * Mww / di],
                    m_ice := (m_ice st1)[i := 1000000000 * n_xs * Mww],
                    h2o_ice := (h2o_ice st1)[i := q_xs]\<rparr>)
         else st1)"

subsection \<open>One level: the frost point (lines 128-155)\<close>

text \<open>\<^verbatim>\<open>(px < p_h2o).nonzero()[0]\<close> and \<^verbatim>\<open>(px >= p_h2o).nonzero()[0]\<close>: the indices,
  in order, where the comparison holds.\<close>

definition k_below :: "real list \<Rightarrow> real \<Rightarrow> nat list" where
  "k_below pxs p_h2o = filter (\<lambda>j. pxs ! j < p_h2o) [0..<length pxs]"

definition k_above :: "real list \<Rightarrow> real \<Rightarrow> nat list" where
  "k_above pxs p_h2o = filter (\<lambda>j. pxs ! j \<ge> p_h2o) [0..<length pxs]"

text \<open>Lines 130-148: \<open>(p1, t1)\<close> from the last index below, \<open>(p2, t2)\<close> from the first
  index at or above; the integer 0 where there is none.\<close>

definition bracket_low :: "real list \<Rightarrow> real \<Rightarrow> pyval \<times> pyval" where
  "bracket_low pxs p_h2o =
     (let k = k_below pxs p_h2o; n = length k
      in if n > 0 then (PyFloat (pxs ! (k ! (n - 1))), PyFloat (tx ! (k ! (n - 1))))
         else (PyInt 0, PyInt 0))"

definition bracket_high :: "real list \<Rightarrow> real \<Rightarrow> pyval \<times> pyval" where
  "bracket_high pxs p_h2o =
     (let k = k_above pxs p_h2o; n = length k
      in if n > 0 then (PyFloat (pxs ! (k ! 0)), PyFloat (tx ! (k ! 0)))
         else (PyInt 0, PyInt 0))"

text \<open>Line 151, \<^verbatim>\<open>p_h2o >= min(px) & p_h2o <= max(px) & p1 > 0 & p2 > 0\<close>. Python
  reads the chain \<^verbatim>\<open>p_h2o >= (min(px) & p_h2o) <= (max(px) & p1) > (0 & p2) > 0\<close>,
  evaluating the operands from the left and stopping at the first comparison that
  fails.\<close>

definition bracket_guard :: "real list \<Rightarrow> real \<Rightarrow> pyval \<Rightarrow> pyval \<Rightarrow> error + bool" where
  "bracket_guard pxs p_h2o p1 p2 =
     (case py_min pxs of Inl e \<Rightarrow> Inl e | Inr mn \<Rightarrow>
      (case py_and (PyFloat mn) (PyFloat p_h2o) of Inl e \<Rightarrow> Inl e | Inr b \<Rightarrow>
       if \<not> p_h2o \<ge> py_num b then Inr False
       else (case py_max pxs of Inl e \<Rightarrow> Inl e | Inr mx \<Rightarrow>
        (case py_and (PyFloat mx) p1 of Inl e \<Rightarrow> Inl e | Inr c \<Rightarrow>
         if \<not> py_num b \<le> py_num c then Inr False
         else (case py_and (PyInt 0) p2 of Inl e \<Rightarrow> Inl e | Inr d \<Rightarrow>
          if \<not> py_num c > py_num d then Inr False else Inr (py_num d > 0))))))"

text \<open>Lines 153 and 155.\<close>

definition dsds :: "real \<Rightarrow> real \<Rightarrow> real \<Rightarrow> real" where
  "dsds p1 p2 p_h2o = (log 10 p2 - log 10 p_h2o) / (log 10 p2 - log 10 p1)"

definition t_interp :: "real \<Rightarrow> real \<Rightarrow> real \<Rightarrow> real \<Rightarrow> real \<Rightarrow> real" where
  "t_interp p1 t1 p2 t2 p_h2o = 1 / (1 / t2 - dsds p1 p2 p_h2o * (1 / t2 - 1 / t1))"

text \<open>Lines 128-155 for the partial pressure \<open>p_h2o\<close>: \<open>Some T\<close> is the value written
  to \<^verbatim>\<open>t_ice[i]\<close>, \<open>None\<close> leaves it.\<close>

definition frost_point :: "real list option \<Rightarrow> real \<Rightarrow> error + real option" where
  "frost_point pxo p_h2o =
     (case pxo of None \<Rightarrow> Inl NameError | Some pxs \<Rightarrow>
      (let b1 = bracket_low pxs p_h2o; b2 = bracket_high pxs p_h2o
       in case bracket_guard pxs p_h2o (fst b1) (fst b2) of Inl e \<Rightarrow> Inl e
          | Inr g \<Rightarrow>
              if g then Inr (Some (t_interp (py_num (fst b1)) (py_num (snd b1))
                                     (py_num (fst b2)) (py_num (snd b2)) p_h2o))
              else Inr None))"

subsection \<open>The loop over altitude (lines 94-155)\<close>

definition level_body ::
  "int \<Rightarrow> real list \<Rightarrow> real list \<Rightarrow> real list \<Rightarrow> nat \<Rightarrow> outputs \<Rightarrow> error + outputs" where
  "level_body vpop t p h2o i st =
     (if \<not> i < length t then Inl IndexError
      else if t ! i > 0 then
        (if \<not> (i < length p \<and> i < length h2o) then Inl IndexError
         else (let st1 = equilibrium vpop (t ! i) (p ! i) (h2o ! i) i st
               in case frost_point (px vpop) (p ! i * h2o ! i * 0.000001) of
                    Inl e \<Rightarrow> Inl e
                  | Inr None \<Rightarrow> Inr st1
                  | Inr (Some T) \<Rightarrow> Inr (st1\<lparr>t_ice := (t_ice st1)[i := T]\<rparr>)))
      else Inr st)"

fun level_loop ::
  "int \<Rightarrow> real list \<Rightarrow> real list \<Rightarrow> real list \<Rightarrow> nat list \<Rightarrow> outputs \<Rightarrow> error + outputs" where
  "level_loop vpop t p h2o [] st = Inr st"
| "level_loop vpop t p h2o (i # is) st =
     (case level_body vpop t p h2o i st of Inl e \<Rightarrow> Inl e
      | Inr st' \<Rightarrow> level_loop vpop t p h2o is st')"

subsection \<open>The layer: Zmax, Ztop, Zbot, IWC (lines 165-185)\<close>

text \<open>The truth value of a boolean array, which a chained comparison of arrays asks
  for: the element of a one-element array, ValueError otherwise.\<close>

definition np_truth :: "bool list \<Rightarrow> error + bool" where
  "np_truth bs = (case bs of [b] \<Rightarrow> Inr b | _ \<Rightarrow> Inl ValueError)"

definition nonzero :: "bool list \<Rightarrow> nat list" where
  "nonzero bs = filter (\<lambda>j. bs ! j) [0..<length bs]"

text \<open>Line 165, \<^verbatim>\<open>(z > 80 & z < 95 & m_ice > 0.).nonzero()\<close>, is the chain
  \<^verbatim>\<open>z > (80 & z) < (95 & m_ice) > 0.\<close>; its value is the first comparison that is
  false, or the last one.\<close>

definition layer_select :: "real list \<Rightarrow> real list \<Rightarrow> error + nat list" where
  "layer_select z mi =
     (case np_and 80 (FloatArr z) of Inl e \<Rightarrow> Inl e | Inr a \<Rightarrow>
      (let c1 = map2 (\<lambda>x y. x > real_of_int y) z a
       in case np_truth c1 of Inl e \<Rightarrow> Inl e | Inr g1 \<Rightarrow>
          if \<not> g1 then Inr (nonzero c1)
          else (case np_and 95 (FloatArr mi) of Inl e \<Rightarrow> Inl e | Inr b \<Rightarrow>
            (let c2 = map2 (\<lambda>x y. x < y) a b
             in case np_truth c2 of Inl e \<Rightarrow> Inl e | Inr g2 \<Rightarrow>
                if \<not> g2 then Inr (nonzero c2)
                else Inr (nonzero (map (\<lambda>y. real_of_int y > 0) b))))))"

text \<open>Lines 171-178. The names assigned are \<^verbatim>\<open>zmax\<close>, \<^verbatim>\<open>ztop\<close>, \<^verbatim>\<open>zbot\<close>; Python
  keeps them apart from \<^verbatim>\<open>Zmax\<close>, \<^verbatim>\<open>Ztop\<close>, \<^verbatim>\<open>Zbot\<close> of lines 79-81.\<close>

record layer_vars =
  zmax :: real
  ztop :: real
  zbot :: real

definition layer_peak :: "real list \<Rightarrow> real list \<Rightarrow> nat list \<Rightarrow> error + layer_vars" where
  "layer_peak z mi k =
     (let mk = map (\<lambda>j. mi ! j) k; zk = map (\<lambda>j. z ! j) k
      in case py_max mk of Inl e \<Rightarrow> Inl e | Inr mx \<Rightarrow>
         (let l = filter (\<lambda>j. mk ! j = mx) [0..<length mk]
          in if l = [] then Inl IndexError
             else (case py_max zk of Inl e \<Rightarrow> Inl e | Inr zt \<Rightarrow>
               (case py_min zk of Inl e \<Rightarrow> Inl e | Inr zb \<Rightarrow>
                  Inr \<lparr>zmax = z ! (k ! (l ! 0)), ztop = zt, zbot = zb\<rparr>))))"

text \<open>Line 180: \<^verbatim>\<open>dz\<close> is bound here only when \<^verbatim>\<open>constdz is None\<close>.\<close>

definition first_dz :: "real list \<Rightarrow> real option \<Rightarrow> error + real option" where
  "first_dz z constdz =
     (if constdz = None then
        (case np_index z 1 of Inl e \<Rightarrow> Inl e | Inr a \<Rightarrow>
         (case np_index z 0 of Inl e \<Rightarrow> Inl e | Inr b \<Rightarrow> Inr (Some (abs (a - b)))))
      else Inr None)"

text \<open>The right-hand side of line 184 at the index \<open>ki = k[i]\<close>.\<close>

definition centered_dz :: "real list \<Rightarrow> nat \<Rightarrow> error + real" where
  "centered_dz z ki =
     (case np_index z (int ki + 1) of Inl e \<Rightarrow> Inl e | Inr a \<Rightarrow>
      (case np_index z (int ki - 1) of Inl e \<Rightarrow> Inl e | Inr b \<Rightarrow> Inr (abs (a - b) * 0.5)))"

text \<open>The loop of lines 182-185 over the indices of \<open>k\<close>, carrying \<open>(dz, iwc)\<close>.\<close>

fun column_loop ::
  "real list \<Rightarrow> real list \<Rightarrow> real option \<Rightarrow> real \<Rightarrow> nat list \<Rightarrow> real option \<times> real
     \<Rightarrow> error + real option \<times> real" where
  "column_loop z mi constdz zm [] (dz, w) = Inr (dz, w)"
| "column_loop z mi constdz zm (ki # ks) (dz, w) =
     (if z ! ki > zm - 2 then
        (case (if constdz \<noteq> None then map_sum id Some (centered_dz z ki) else Inr dz) of
           Inl e \<Rightarrow> Inl e
         | Inr None \<Rightarrow> Inl NameError
         | Inr (Some d) \<Rightarrow> column_loop z mi constdz zm ks (Some d, w + mi ! ki * d))
      else column_loop z mi constdz zm ks (dz, w))"

text \<open>Lines 167-185 for the index array \<open>k\<close>. Only \<^verbatim>\<open>iwc\<close> of the returned names
  is assigned.\<close>

definition layer_scan ::
  "real list \<Rightarrow> real list \<Rightarrow> real option \<Rightarrow> nat list \<Rightarrow> outputs \<Rightarrow> error + outputs" where
  "layer_scan z mi constdz k st =
     (if length k > 0 then
        (case layer_peak z mi k of Inl e \<Rightarrow> Inl e | Inr lv \<Rightarrow>
         (case first_dz z constdz of Inl e \<Rightarrow> Inl e | Inr dz0 \<Rightarrow>
          (case column_loop z mi constdz (zmax lv) k (dz0, iwc st) of Inl e \<Rightarrow> Inl e
           | Inr r \<Rightarrow> Inr (st\<lparr>iwc := snd r\<rparr>))))
      else Inr st)"

definition layer_summary :: "real list \<Rightarrow> real option \<Rightarrow> outputs \<Rightarrow> error + outputs" where
  "layer_summary z constdz st =
     (case layer_select z (m_ice st) of Inl e \<Rightarrow> Inl e
      | Inr k \<Rightarrow> layer_scan z (m_ice st) constdz k st)"

subsection \<open>The routine\<close>

text \<open>The values named on line 194 after a run that raises nothing.\<close>

definition pmc_0d_model2b ::
  "real list \<Rightarrow> real list \<Rightarrow> real list \<Rightarrow> real list \<Rightarrow> int \<Rightarrow> real option \<Rightarrow> error + outputs" where
  "pmc_0d_model2b z p t h2o vpop constdz =
     (case housekeeping vpop (length z) of Inl e \<Rightarrow> Inl e | Inr st0 \<Rightarrow>
      (case level_loop vpop t p h2o [0..<length z] st0 of Inl e \<Rightarrow> Inl e
       | Inr st1 \<Rightarrow> layer_summary z constdz st1))"

section \<open>The validity test of vpop\<close>

lemma vpop_not_valid_iff: "vpop_not_valid v \<longleftrightarrow> even v \<and> 4 \<le> v"
  unfolding vpop_not_valid_def one_or_eq by (cases "even v") (auto elim: evenE)

text \<open>
  C3. The claim: every vpop outside 1, 2, 3, in particular 0 and 4, is rejected before
  an output array is allocated. The test of line 67 rejects 4 and leaves 1, 2 and 3
  alone, but it lets 0 (and 5) through to the allocation of lines 71-82.
\<close>

theorem vpop_zero_reaches_allocation:
  "housekeeping 0 2 = Inr (allocate 2) \<and> housekeeping 5 2 = Inr (allocate 2) \<and>
   housekeeping 4 2 = Inl SystemExit \<and>
   housekeeping 1 2 = Inr (allocate 2) \<and> housekeeping 2 2 = Inr (allocate 2) \<and>
   housekeeping 3 2 = Inr (allocate 2)"
  by (simp add: housekeeping_def vpop_not_valid_iff)

section \<open>The saturation curves and the table\<close>

lemma length_tx: "length tx = 300"
  by (simp add: tx_def)

lemma tx_nth: "k < 300 \<Longrightarrow> tx ! k = real k * 3 + 50"
  by (simp add: tx_def)

lemma tx_bounds: "k < 300 \<Longrightarrow> 50 \<le> tx ! k \<and> tx ! k \<le> 947"
  by (simp add: tx_nth)

lemma tx_strict_mono: "j < k \<Longrightarrow> k < 300 \<Longrightarrow> tx ! j < tx ! k"
  by (simp add: tx_nth)

lemma px_valid: "vpop = 1 \<or> vpop = 2 \<or> vpop = 3 \<Longrightarrow> \<exists>pxs. px vpop = Some pxs"
  by (auto simp: px_def)

lemma px_selector: "px vpop = Some pxs \<Longrightarrow> vpop = 1 \<or> vpop = 2 \<or> vpop = 3"
  by (auto simp: px_def split: if_splits)

lemma px_defined: "px 1 \<noteq> None \<and> px 2 \<noteq> None \<and> px 3 \<noteq> None"
  by (simp add: px_def)

lemma px_length: "px vpop = Some pxs \<Longrightarrow> length pxs = 300"
  by (auto simp: px_def length_tx split: if_splits)

text \<open>The table entry at index \<open>k\<close> is the curve of lines 100-102 at \<open>tx[k]\<close>.\<close>

lemma px_nth: "px vpop = Some pxs \<Longrightarrow> k < 300 \<Longrightarrow> sat_vp vpop (tx ! k) = Some (pxs ! k)"
  by (auto simp: px_def sat_vp_def length_tx split: if_splits)

lemma sat_vp_pos: "vpop = 1 \<or> vpop = 2 \<or> vpop = 3 \<Longrightarrow> 0 < the (sat_vp vpop T)"
  by (auto simp: sat_vp_def)

lemma px_pos: "px vpop = Some pxs \<Longrightarrow> k < 300 \<Longrightarrow> 0 < pxs ! k"
  using px_nth [of vpop pxs k] sat_vp_pos [OF px_selector, of vpop pxs "tx ! k"] by simp

text \<open>
  C5. For each selector the saturation vapour pressure over ice, in mb, is the stated
  formula with its factor 0.01: in the table (entry \<open>k\<close>, at the temperature
  \<open>50 + 3k\<close>) and in \<^verbatim>\<open>p_ice[i]\<close> after the equilibrium step of a level at
  temperature \<open>T\<close>.
\<close>

theorem saturation_curve_formulas:
  assumes "k < 300" "i < length (p_ice st)"
  shows "the (px 1) ! k = 0.01 * exp (9.550426 - 5723.265 / (50 + 3 * real k)
             + 3.53068 * ln (50 + 3 * real k) - 0.00728332 * (50 + 3 * real k)) \<and>
         the (px 2) ! k = 0.01 * 10 powr (14.88 - 3059.0 / (50 + 3 * real k)) \<and>
         the (px 3) ! k = 0.01 * exp (28.868 - 6132.935 / (50 + 3 * real k)) \<and>
         p_ice (equilibrium 1 T P q i st) ! i
           = 0.01 * exp (9.550426 - 5723.265 / T + 3.53068 * ln T - 0.00728332 * T) \<and>
         p_ice (equilibrium 2 T P q i st) ! i = 0.01 * 10 powr (14.88 - 3059.0 / T) \<and>
         p_ice (equilibrium 3 T P q i st) ! i = 0.01 * exp (28.868 - 6132.935 / T)"
proof -
  have tk: "tx ! k = 50 + 3 * real k" using assms(1) by (simp add: tx_nth)
  have "the (px 1) ! k = 0.01 * exp (9.550426 - 5723.265 / (tx ! k)
             + 3.53068 * ln (tx ! k) - 0.00728332 * (tx ! k))"
       "the (px 2) ! k = 0.01 * 10 powr (14.88 - 3059.0 / (tx ! k))"
       "the (px 3) ! k = 0.01 * exp (28.868 - 6132.935 / (tx ! k))"
    using assms(1) by (simp_all add: px_def length_tx)
  moreover have "p_ice (equilibrium 1 T P q i st) ! i
           = 0.01 * exp (9.550426 - 5723.265 / T + 3.53068 * ln T - 0.00728332 * T)"
       "p_ice (equilibrium 2 T P q i st) ! i = 0.01 * 10 powr (14.88 - 3059.0 / T)"
       "p_ice (equilibrium 3 T P q i st) ! i = 0.01 * exp (28.868 - 6132.935 / T)"
    using assms(2) by (simp_all add: equilibrium_def sat_vp_def Let_def)
  ultimately show ?thesis unfolding tk by blast
qed

theorem saturation_curve_formulas_witness:
  "the (px 1) ! 30 = 0.01 * exp (9.550426 - 5723.265 / 140
             + 3.53068 * ln 140 - 0.00728332 * 140) \<and>
   p_ice (equilibrium 1 140 0.01 8 0 (allocate 1)) ! 0
     = 0.01 * exp (9.550426 - 5723.265 / 140 + 3.53068 * ln 140 - 0.00728332 * 140)"
  using saturation_curve_formulas [of 30 0 "allocate 1" 140 "0.01" 8]
  by (simp add: allocate_def)

subsection \<open>Monotonicity\<close>

text \<open>The exponent of the Murphy and Koop curve increases up to 1000 K: between
  \<open>x < y\<close> the terms \<open>-5723.265/T\<close> and \<open>3.53068 ln T\<close> gain at least
  \<open>(y - x) (5723.265 / 10^6 + 3.53068 / 10^3)\<close>, more than \<open>0.00728332 (y - x)\<close>.\<close>

lemma murphy_koop_exponent_mono:
  fixes x y :: real
  assumes "0 < x" "x < y" "y \<le> 1000"
  shows "9.550426 - 5723.265 / x + 3.53068 * ln x - 0.00728332 * x
       < 9.550426 - 5723.265 / y + 3.53068 * ln y - 0.00728332 * y"
proof -
  have y: "0 < y" using assms by linarith
  have "ln (x / y) \<le> x / y - 1"
    using assms y by (intro ln_le_minus_one) simp
  then have "ln x - ln y \<le> x / y - 1"
    using assms y by (simp add: ln_div)
  moreover have "x / y - 1 = - ((y - x) / y)"
    using y by (simp add: field_simps)
  ultimately have l1: "(y - x) / y \<le> ln y - ln x" by linarith
  have "(y - x) / 1000 \<le> (y - x) / y"
    using assms y by (intro divide_left_mono) auto
  with l1 have l2: "(y - x) / 1000 \<le> ln y - ln x" by linarith
  have xy: "x * y \<le> 1000 * 1000"
    using assms y by (intro mult_mono) auto
  have "(y - x) / (1000 * 1000) \<le> (y - x) / (x * y)"
    using assms y xy by (intro divide_left_mono) auto
  moreover have "1 / x - 1 / y = (y - x) / (x * y)"
    using assms y by (simp add: field_simps)
  ultimately have l3: "(y - x) / 1000000 \<le> 1 / x - 1 / y" by simp
  have key: "9.550426 - 5723.265 * ix + 3.53068 * lx - 0.00728332 * x
           < 9.550426 - 5723.265 * iy + 3.53068 * ly - 0.00728332 * y"
    if "(y - x) / 1000000 \<le> ix - iy" "(y - x) / 1000 \<le> ly - lx" for ix iy lx ly :: real
    using that assms(2) by simp
  show ?thesis
    using key [OF l3 l2] by simp
qed

lemma inverse_term_mono:
  fixes x y c :: real
  assumes "0 < x" "x < y" "0 < c"
  shows "- (c / x) < - (c / y)"
  using assms by (simp add: field_simps)

lemma sat_vp_mono:
  assumes "vpop = 1 \<or> vpop = 2 \<or> vpop = 3" "0 < Ta" "Ta < Tb" "Tb \<le> 1000"
  shows "the (sat_vp vpop Ta) < the (sat_vp vpop Tb)"
proof -
  consider "vpop = 1" | "vpop = 2" | "vpop = 3" using assms(1) by blast
  then show ?thesis
  proof cases
    case 1
    then show ?thesis
      using murphy_koop_exponent_mono [OF assms(2-4)] by (simp add: sat_vp_def)
  next
    case 2
    have "14.88 - 3059.0 / Ta < 14.88 - 3059.0 / Tb"
      using inverse_term_mono [OF assms(2,3), of 3059] by simp
    then show ?thesis using 2 by (simp add: sat_vp_def)
  next
    case 3
    have "28.868 - 6132.935 / Ta < 28.868 - 6132.935 / Tb"
      using inverse_term_mono [OF assms(2,3), of "6132.935"] by simp
    then show ?thesis using 3 by (simp add: sat_vp_def)
  qed
qed

lemma px_strict_mono:
  assumes "px vpop = Some pxs" "j < k" "k < 300"
  shows "pxs ! j < pxs ! k"
proof -
  have v: "vpop = 1 \<or> vpop = 2 \<or> vpop = 3"
    using assms(1) by (rule px_selector)
  have j: "j < 300" using assms by simp
  have "the (sat_vp vpop (tx ! j)) < the (sat_vp vpop (tx ! k))"
    using tx_bounds [OF j] tx_bounds [OF assms(3)] tx_strict_mono [OF assms(2,3)]
    by (intro sat_vp_mono [OF v]) auto
  then show ?thesis
    using px_nth [OF assms(1) j] px_nth [OF assms(1) assms(3)] by simp
qed

lemma px_mono_le:
  assumes "px vpop = Some pxs" "j \<le> k" "k < 300"
  shows "pxs ! j \<le> pxs ! k"
  using px_strict_mono [OF assms(1) _ assms(3), of j] assms(2)
  by (cases "j = k") auto

lemma px_index_less:
  assumes "px vpop = Some pxs" "j < 300" "k < 300" "pxs ! j < pxs ! k"
  shows "j < k"
  using px_mono_le [OF assms(1) _ assms(2), of k] assms(4) by (cases "j < k") auto

text \<open>
  C7. For each of the three parameterizations the saturation vapour pressure is strictly
  increasing in temperature on 50 to 1000 K, and so are the entries of the table
  (temperatures 50 to 947 K), which are values of the same curve.
\<close>

theorem saturation_pressure_increasing:
  assumes "vpop = 1 \<or> vpop = 2 \<or> vpop = 3"
    and "50 \<le> Ta" "Ta < Tb" "Tb \<le> 1000" and "j < k" "k < 300"
  shows "the (sat_vp vpop Ta) < the (sat_vp vpop Tb) \<and>
         the (px vpop) ! j < the (px vpop) ! k \<and>
         the (px vpop) ! k = the (sat_vp vpop (tx ! k))"
proof -
  obtain pxs where px: "px vpop = Some pxs" using px_valid [OF assms(1)] by blast
  have "0 < Ta" using assms(2) by linarith
  from sat_vp_mono [OF assms(1) this assms(3,4)]
    px_strict_mono [OF px assms(5,6)] px_nth [OF px assms(6)]
  show ?thesis by (simp add: px)
qed

theorem saturation_pressure_increasing_witness:
  "the (sat_vp 1 50) < the (sat_vp 1 1000) \<and> the (sat_vp 2 140) < the (sat_vp 2 143) \<and>
   the (px 3) ! 0 < the (px 3) ! 299"
  using saturation_pressure_increasing [of 1 50 1000 0 299]
    saturation_pressure_increasing [of 2 140 143 0 299]
    saturation_pressure_increasing [of 3 50 1000 0 299]
  by simp

section \<open>The frost point\<close>

subsection \<open>The guard of line 151\<close>

text \<open>The first operand pair of the chain, \<^verbatim>\<open>min(px) & p_h2o\<close>, is a pair of floats:
  the guard raises for every table that is not empty, whatever the bracket.\<close>

lemma bracket_guard_raises: "pxs \<noteq> [] \<Longrightarrow> bracket_guard pxs ph p1 p2 = Inl TypeError"
  by (cases pxs) (simp_all add: bracket_guard_def py_min_def)

lemma frost_point_table_raises:
  "frost_point (px vpop) ph = Inl (if px vpop = None then NameError else TypeError)"
proof (cases "px vpop")
  case None
  then show ?thesis by (simp add: frost_point_def)
next
  case (Some pxs)
  then have "pxs \<noteq> []" using px_length by fastforce
  with Some show ?thesis by (simp add: frost_point_def Let_def bracket_guard_raises)
qed

lemma level_body_warm_raises:
  "i < length t \<Longrightarrow> 0 < t ! i \<Longrightarrow> \<exists>e. level_body vpop t p h2o i st = Inl e"
  by (simp add: level_body_def Let_def frost_point_table_raises)

text \<open>
  C1. The claim: at a level with a valid bracket \<^verbatim>\<open>t_ice[i]\<close> is the interpolated
  value, and at every other level it stays zero. In the code the guard of line 151
  raises TypeError at every level with a positive temperature: at the level
  \<open>T = 140\<close>, \<open>p = 0.01\<close>, \<open>h2o = 8\<close> with the table of selector 1, at a partial
  pressure between two table entries, and at the partial pressure 0, below the table.
\<close>

theorem frost_point_guard_raises:
  "level_body 1 [140] [0.01] [8] 0 (allocate 1) = Inl TypeError \<and>
   frost_point (px 1) ((the (px 1) ! 30 + the (px 1) ! 31) / 2) = Inl TypeError \<and>
   frost_point (px 1) 0 = Inl TypeError"
  by (simp add: level_body_def frost_point_table_raises px_defined)

subsection \<open>The bracket search\<close>

lemma filter_upt_first:
  assumes "k < n" "P k" "\<And>j. j < k \<Longrightarrow> \<not> P j"
  shows "filter P [0..<n] \<noteq> [] \<and> filter P [0..<n] ! 0 = k"
proof -
  have "[0..<n] = [0..<k] @ k # [Suc k..<n]"
    using upt_add_eq_append [of 0 k "n - k"] upt_conv_Cons [of k n] assms(1) by simp
  moreover have "filter P [0..<k] = []"
    using assms(3) by (simp add: filter_empty_conv)
  ultimately have "filter P [0..<n] = k # filter P [Suc k..<n]"
    using assms(2) by simp
  then show ?thesis by simp
qed

lemma filter_upt_last:
  assumes "k < n" "P k" "\<And>j. k < j \<Longrightarrow> j < n \<Longrightarrow> \<not> P j"
  shows "filter P [0..<n] \<noteq> [] \<and> filter P [0..<n] ! (length (filter P [0..<n]) - 1) = k"
proof -
  have "[0..<n] = [0..<k] @ k # [Suc k..<n]"
    using upt_add_eq_append [of 0 k "n - k"] upt_conv_Cons [of k n] assms(1) by simp
  moreover have "filter P [Suc k..<n] = []"
    using assms(3) by (simp add: filter_empty_conv)
  ultimately have "filter P [0..<n] = filter P [0..<k] @ [k]"
    using assms(2) by simp
  then show ?thesis by (simp add: nth_append)
qed

lemma filter_upt_none: "(\<And>j. j < n \<Longrightarrow> \<not> P j) \<Longrightarrow> filter P [0..<n] = []"
  by (simp add: filter_empty_conv)

lemma k_below_found:
  assumes "k_below pxs ph \<noteq> []"
  defines "j \<equiv> k_below pxs ph ! (length (k_below pxs ph) - 1)"
  shows "j < length pxs \<and> pxs ! j < ph"
proof -
  have "j \<in> set (k_below pxs ph)"
    using assms by (simp add: j_def)
  then show ?thesis by (simp add: k_below_def)
qed

lemma k_above_found:
  assumes "k_above pxs ph \<noteq> []"
  defines "j \<equiv> k_above pxs ph ! 0"
  shows "j < length pxs \<and> ph \<le> pxs ! j"
proof -
  have "j \<in> set (k_above pxs ph)"
    using assms by (simp add: j_def)
  then show ?thesis by (simp add: k_above_def)
qed

lemma bracket_low_found:
  assumes "bracket_low pxs ph = (PyFloat p1, PyFloat t1)"
  shows "\<exists>j < length pxs. p1 = pxs ! j \<and> t1 = tx ! j \<and> pxs ! j < ph"
proof -
  have ne: "k_below pxs ph \<noteq> []"
    using assms by (auto simp: bracket_low_def Let_def split: if_splits)
  then show ?thesis
    using assms k_below_found [OF ne] by (auto simp: bracket_low_def Let_def)
qed

lemma bracket_high_found:
  assumes "bracket_high pxs ph = (PyFloat p2, PyFloat t2)"
  shows "\<exists>j < length pxs. p2 = pxs ! j \<and> t2 = tx ! j \<and> ph \<le> pxs ! j"
proof -
  have ne: "k_above pxs ph \<noteq> []"
    using assms by (auto simp: bracket_high_def Let_def split: if_splits)
  then show ?thesis
    using assms k_above_found [OF ne] by (auto simp: bracket_high_def Let_def)
qed

text \<open>A partial pressure in \<open>(px[k], px[k+1]]\<close> is bracketed by the entries \<open>k\<close> and
  \<open>k + 1\<close>.\<close>

lemma bracket_between:
  assumes px: "px vpop = Some pxs" and k: "Suc k < 300"
    and lo: "pxs ! k < ph" and hi: "ph \<le> pxs ! Suc k"
  shows "bracket_low pxs ph = (PyFloat (pxs ! k), PyFloat (tx ! k)) \<and>
         bracket_high pxs ph = (PyFloat (pxs ! Suc k), PyFloat (tx ! Suc k))"
proof -
  have len: "length pxs = 300" using px by (rule px_length)
  have above: "\<not> pxs ! j < ph" if "k < j" "j < 300" for j
    using px_mono_le [OF px _ that(2), of "Suc k"] that(1) hi by auto
  have below: "\<not> ph \<le> pxs ! j" if "j < Suc k" for j
    using px_mono_le [OF px _ _, of j k] that lo k by auto
  have "k_below pxs ph \<noteq> [] \<and> k_below pxs ph ! (length (k_below pxs ph) - 1) = k"
    unfolding k_below_def len
    using k lo above by (intro filter_upt_last) auto
  moreover have "k_above pxs ph \<noteq> [] \<and> k_above pxs ph ! 0 = Suc k"
    unfolding k_above_def len
    using k hi below by (intro filter_upt_first) auto
  ultimately show ?thesis
    by (simp add: bracket_low_def bracket_high_def Let_def)
qed

text \<open>No table entry lies below the first one.\<close>

lemma bracket_low_none:
  assumes px: "px vpop = Some pxs"
  shows "bracket_low pxs (pxs ! 0) = (PyInt 0, PyInt 0)"
proof -
  have len: "length pxs = 300" using px by (rule px_length)
  have "\<not> pxs ! j < pxs ! 0" if "j < 300" for j
    using px_mono_le [OF px _ that, of 0] by auto
  then have "k_below pxs (pxs ! 0) = []"
    unfolding k_below_def len by (intro filter_upt_none) auto
  then show ?thesis by (simp add: bracket_low_def)
qed

subsection \<open>The interpolation of lines 153-155\<close>

lemma t_interp_exact: "t_interp p1 t1 p2 t2 p2 = t2"
  by (simp add: t_interp_def dsds_def)

lemma t_interp_between:
  assumes "0 < p1" "p1 < ph" "ph \<le> p2" "0 < t1" "t1 < t2"
  shows "log 10 p2 - log 10 p1 \<noteq> 0 \<and> 1 / t2 - dsds p1 p2 ph * (1 / t2 - 1 / t1) \<noteq> 0 \<and>
         t1 < t_interp p1 t1 p2 t2 ph \<and> t_interp p1 t1 p2 t2 ph \<le> t2"
proof -
  have pos: "0 < ph" "0 < p2" "0 < t2" using assms by linarith+
  have l1: "log 10 p1 < log 10 ph" using assms pos by simp
  have l2: "log 10 ph \<le> log 10 p2" using assms pos by simp
  define f where "f = dsds p1 p2 ph"
  have den: "0 < log 10 p2 - log 10 p1" using l1 l2 by linarith
  have f0: "0 \<le> f" unfolding f_def dsds_def using l2 den by simp
  have f1: "f < 1" unfolding f_def dsds_def using l1 den by simp
  define g where "g = 1 / t1 - 1 / t2"
  have g: "0 < g" unfolding g_def using assms pos by (simp add: field_simps)
  define D where "D = 1 / t2 - f * (1 / t2 - 1 / t1)"
  have D: "D = 1 / t2 + f * g" unfolding D_def g_def by (simp add: algebra_simps)
  have "0 \<le> f * g" using f0 g by simp
  then have Dlo: "1 / t2 \<le> D" using D by linarith
  have "f * g < 1 * g" using f1 g by (intro mult_strict_right_mono)
  then have Dhi: "D < 1 / t1" using D by (simp add: g_def)
  have Dpos: "0 < D" using Dlo pos by (smt (verit) divide_pos_pos)
  have T: "t_interp p1 t1 p2 t2 ph = 1 / D"
    by (simp add: t_interp_def D_def f_def)
  have "1 / D \<le> t2" using Dlo Dpos pos by (simp add: field_simps)
  moreover have "t1 < 1 / D" using Dhi Dpos assms by (simp add: field_simps)
  ultimately show ?thesis using den Dpos T by (simp add: D_def f_def)
qed

text \<open>
  C10. When both bounds of the bracket are found in the table of a valid selector, then
  \<open>p1 < p_h2o \<le> p2\<close>, so \<open>p1 \<noteq> p2\<close> and neither denominator of lines 153-155 is
  zero, and the interpolated temperature lies between \<open>t1\<close> and \<open>t2\<close>, within
  50 to 947 K.
\<close>

theorem bracket_interpolation_safe:
  assumes px: "px vpop = Some pxs"
    and lo: "bracket_low pxs ph = (PyFloat p1, PyFloat t1)"
    and hi: "bracket_high pxs ph = (PyFloat p2, PyFloat t2)"
  shows "p1 < ph \<and> ph \<le> p2 \<and> p1 \<noteq> p2 \<and> log 10 p2 - log 10 p1 \<noteq> 0 \<and>
         1 / t2 - dsds p1 p2 ph * (1 / t2 - 1 / t1) \<noteq> 0 \<and>
         t1 < t_interp p1 t1 p2 t2 ph \<and> t_interp p1 t1 p2 t2 ph \<le> t2 \<and>
         50 \<le> t_interp p1 t1 p2 t2 ph \<and> t_interp p1 t1 p2 t2 ph \<le> 947"
proof -
  have len: "length pxs = 300" using px by (rule px_length)
  obtain j1 where j1: "j1 < 300" "p1 = pxs ! j1" "t1 = tx ! j1" "pxs ! j1 < ph"
    using bracket_low_found [OF lo] len by auto
  obtain j2 where j2: "j2 < 300" "p2 = pxs ! j2" "t2 = tx ! j2" "ph \<le> pxs ! j2"
    using bracket_high_found [OF hi] len by auto
  have "pxs ! j1 < pxs ! j2" using j1(4) j2(4) by linarith
  then have "j1 < j2" using px_index_less [OF px j1(1) j2(1)] by simp
  then have t12: "t1 < t2" using tx_strict_mono j1(3) j2(1,3) by simp
  have p1: "0 < p1" using px_pos [OF px j1(1)] j1(2) by simp
  have t1: "50 \<le> t1" using tx_bounds [OF j1(1)] j1(3) by simp
  have t2: "t2 \<le> 947" using tx_bounds [OF j2(1)] j2(3) by simp
  have order: "p1 < ph" "ph \<le> p2" using j1 j2 by simp_all
  have "0 < t1" using t1 by linarith
  from t_interp_between [OF p1 order this t12] order t1 t2 show ?thesis
    by auto
qed

theorem bracket_interpolation_safe_witness:
  "bracket_low (the (px 3)) ((the (px 3) ! 30 + the (px 3) ! 31) / 2)
     = (PyFloat (the (px 3) ! 30), PyFloat (tx ! 30)) \<and>
   bracket_high (the (px 3)) ((the (px 3) ! 30 + the (px 3) ! 31) / 2)
     = (PyFloat (the (px 3) ! 31), PyFloat (tx ! 31)) \<and>
   140 < t_interp (the (px 3) ! 30) (tx ! 30) (the (px 3) ! 31) (tx ! 31)
           ((the (px 3) ! 30 + the (px 3) ! 31) / 2) \<and>
   t_interp (the (px 3) ! 30) (tx ! 30) (the (px 3) ! 31) (tx ! 31)
           ((the (px 3) ! 30 + the (px 3) ! 31) / 2) \<le> 143"
proof -
  define P where "P = the (px 3)"
  have px: "px 3 = Some P" by (simp add: px_def P_def)
  have lt: "P ! 30 < P ! 31" using px_strict_mono [OF px, of 30 31] by simp
  have b: "bracket_low P ((P ! 30 + P ! 31) / 2) = (PyFloat (P ! 30), PyFloat (tx ! 30)) \<and>
           bracket_high P ((P ! 30 + P ! 31) / 2) = (PyFloat (P ! 31), PyFloat (tx ! 31))"
    using bracket_between [OF px, of 30 "(P ! 30 + P ! 31) / 2"] lt by simp
  show ?thesis
    using b bracket_interpolation_safe [OF px conjunct1 [OF b] conjunct2 [OF b]]
    by (simp add: tx_nth P_def)
qed

subsection \<open>Round trip at the table entries\<close>

text \<open>
  C6, as stated: a partial pressure equal to the table entry \<open>k\<close> gives
  \<^verbatim>\<open>t_ice = tx[k]\<close> for every \<open>k\<close> from 0 to 299. At \<open>k = 0\<close> no entry lies below
  the partial pressure, so \<open>p1\<close> stays 0 and there is no bracket to interpolate in; the
  frost-point step does not return 50 there.
\<close>

theorem frost_point_round_trip_counterexample:
  "frost_point (px 3) (the (px 3) ! 0) = Inl TypeError \<and>
   bracket_low (the (px 3)) (the (px 3) ! 0) = (PyInt 0, PyInt 0)"
proof -
  have "px 3 = Some (the (px 3))" by (simp add: px_def)
  from bracket_low_none [OF this] show ?thesis
    by (simp add: frost_point_table_raises px_defined)
qed

text \<open>
  C6, amended: for every table index \<open>k\<close> from 1 to 299 and a partial pressure equal
  to the entry \<open>px[k]\<close>, the bracket search returns the entries \<open>k - 1\<close> and \<open>k\<close>, and
  the interpolation of lines 153-155 on that bracket is exactly \<open>tx[k] = 50 + 3k\<close>;
  at \<open>k = 0\<close> the lower bound is not found.
\<close>

theorem frost_point_round_trip_interior:
  assumes px: "px vpop = Some pxs" and k: "0 < k" "k < 300"
  shows "bracket_low pxs (pxs ! k) = (PyFloat (pxs ! (k - 1)), PyFloat (tx ! (k - 1))) \<and>
         bracket_high pxs (pxs ! k) = (PyFloat (pxs ! k), PyFloat (tx ! k)) \<and>
         t_interp (pxs ! (k - 1)) (tx ! (k - 1)) (pxs ! k) (tx ! k) (pxs ! k) = tx ! k \<and>
         tx ! k = 50 + 3 * real k \<and>
         bracket_low pxs (pxs ! 0) = (PyInt 0, PyInt 0)"
proof -
  obtain m where m: "k = Suc m" using k(1) by (cases k) auto
  have "pxs ! m < pxs ! Suc m" using px_strict_mono [OF px, of m "Suc m"] k(2) m by simp
  from bracket_between [OF px _ this] k(2) m
  show ?thesis
    by (simp add: t_interp_exact tx_nth bracket_low_none [OF px])
qed

theorem frost_point_round_trip_interior_witness:
  "bracket_low (the (px 3)) (the (px 3) ! 30)
     = (PyFloat (the (px 3) ! 29), PyFloat (tx ! 29)) \<and>
   bracket_high (the (px 3)) (the (px 3) ! 30)
     = (PyFloat (the (px 3) ! 30), PyFloat (tx ! 30)) \<and>
   t_interp (the (px 3) ! 29) (tx ! 29) (the (px 3) ! 30) (tx ! 30) (the (px 3) ! 30)
     = tx ! 30 \<and>
   tx ! 30 = 140"
proof -
  have px: "px 3 = Some (the (px 3))" by (simp add: px_def)
  have k: "(0::nat) < 30" "(30::nat) < 300" by simp_all
  show ?thesis
    using frost_point_round_trip_interior [OF px k] by auto
qed

section \<open>The loop over altitude\<close>

text \<open>The equilibrium step of level \<open>i\<close> writes index \<open>i\<close> only.\<close>

lemma equilibrium_frame:
  "j \<noteq> i \<Longrightarrow>
   t_ice (equilibrium vpop T P q i st) ! j = t_ice st ! j \<and>
   p_ice (equilibrium vpop T P q i st) ! j = p_ice st ! j \<and>
   s_ice (equilibrium vpop T P q i st) ! j = s_ice st ! j \<and>
   v_ice (equilibrium vpop T P q i st) ! j = v_ice st ! j \<and>
   m_ice (equilibrium vpop T P q i st) ! j = m_ice st ! j \<and>
   h2o_ice (equilibrium vpop T P q i st) ! j = h2o_ice st ! j \<and>
   h2o_sat (equilibrium vpop T P q i st) ! j = h2o_sat st ! j"
  by (simp add: equilibrium_def Let_def)

text \<open>One pass of the loop body leaves a level of non-positive temperature as it was:
  the body of that level itself is skipped, and the body of another level writes at its
  own index.\<close>

lemma level_body_frame:
  assumes "level_body vpop t p h2o i st = Inr st'" "t ! j \<le> 0"
  shows "t_ice st' ! j = t_ice st ! j \<and> p_ice st' ! j = p_ice st ! j \<and>
         s_ice st' ! j = s_ice st ! j \<and> v_ice st' ! j = v_ice st ! j \<and>
         m_ice st' ! j = m_ice st ! j \<and> h2o_ice st' ! j = h2o_ice st ! j \<and>
         h2o_sat st' ! j = h2o_sat st ! j"
proof (cases "j = i")
  case True
  then have "st' = st" using assms by (simp add: level_body_def split: if_splits)
  then show ?thesis by simp
next
  case False
  show ?thesis
  proof (cases "t ! i > 0")
    case True
    then obtain r where r: "frost_point (px vpop) (p ! i * h2o ! i * 0.000001) = Inr r"
      and st': "st' = (case r of None \<Rightarrow> equilibrium vpop (t ! i) (p ! i) (h2o ! i) i st
          | Some T \<Rightarrow> (equilibrium vpop (t ! i) (p ! i) (h2o ! i) i st)
               \<lparr>t_ice := (t_ice (equilibrium vpop (t ! i) (p ! i) (h2o ! i) i st))[i := T]\<rparr>)"
      using assms(1)
      by (auto simp: level_body_def Let_def split: if_splits sum.splits option.splits)
    show ?thesis
      using equilibrium_frame [OF False, of vpop "t ! i" "p ! i" "h2o ! i" st] False
      by (cases r) (simp_all add: st')
  next
    case False
    then have "st' = st" using assms by (simp add: level_body_def split: if_splits)
    then show ?thesis by simp
  qed
qed

lemma level_loop_frame:
  assumes "level_loop vpop t p h2o js st = Inr st'" "t ! j \<le> 0"
  shows "t_ice st' ! j = t_ice st ! j \<and> p_ice st' ! j = p_ice st ! j \<and>
         s_ice st' ! j = s_ice st ! j \<and> v_ice st' ! j = v_ice st ! j \<and>
         m_ice st' ! j = m_ice st ! j \<and> h2o_ice st' ! j = h2o_ice st ! j \<and>
         h2o_sat st' ! j = h2o_sat st ! j"
  using assms
proof (induction js arbitrary: st)
  case Nil
  then show ?case by simp
next
  case (Cons i js)
  then obtain st1 where b: "level_body vpop t p h2o i st = Inr st1"
    and l: "level_loop vpop t p h2o js st1 = Inr st'"
    by (auto split: sum.splits)
  show ?case
    using Cons.IH [OF l Cons.prems(2)] level_body_frame [OF b Cons.prems(2)] by simp
qed

lemma level_body_skip:
  "i < length t \<Longrightarrow> t ! i \<le> 0 \<Longrightarrow> level_body vpop t p h2o i st = Inr st"
  by (simp add: level_body_def)

lemma level_loop_in_range:
  "level_loop vpop t p h2o js st = Inr st' \<Longrightarrow> i \<in> set js \<Longrightarrow> i < length t"
proof (induction js arbitrary: st)
  case Nil
  then show ?case by simp
next
  case (Cons a js)
  then show ?case
    by (auto simp: level_body_def split: sum.splits if_splits)
qed

text \<open>Because of the guard of line 151, the loop runs to its end only on a profile
  whose levels are all skipped.\<close>

lemma level_loop_all_skipped:
  "level_loop vpop t p h2o js st = Inr st' \<Longrightarrow> i \<in> set js \<Longrightarrow> t ! i \<le> 0"
proof (induction js arbitrary: st)
  case Nil
  then show ?case by simp
next
  case (Cons a js)
  from Cons.prems(1) obtain st1 where b: "level_body vpop t p h2o a st = Inr st1"
    and l: "level_loop vpop t p h2o js st1 = Inr st'"
    by (auto split: sum.splits)
  have a: "a < length t" using b by (auto simp: level_body_def split: if_splits)
  have "t ! a \<le> 0"
  proof (rule ccontr)
    assume "\<not> t ! a \<le> 0"
    then have "0 < t ! a" by simp
    from level_body_warm_raises [OF a this, of vpop p h2o st] b show False by auto
  qed
  then show ?case using Cons.IH [OF l] Cons.prems(2) by auto
qed

text \<open>
  C8. A level \<open>i\<close> with \<open>t[i] \<le> 0\<close> is skipped: the loop body at \<open>i\<close> returns the
  state it was given, and when the loop over altitude has run, the seven per-level
  outputs at \<open>i\<close> are the defaults of lines 71-77 (0, and 999 for \<^verbatim>\<open>h2o_sat\<close>). The
  equilibrium step of another level \<open>j\<close> does not change them.
\<close>

theorem skipped_levels_keep_defaults:
  assumes run: "level_loop vpop t p h2o [0..<nz] (allocate nz) = Inr st"
    and i: "i < nz" and cold: "t ! i \<le> 0" and other: "j \<noteq> i"
  shows "t_ice st ! i = 0 \<and> p_ice st ! i = 0 \<and> s_ice st ! i = 0 \<and> v_ice st ! i = 0 \<and>
         m_ice st ! i = 0 \<and> h2o_ice st ! i = 0 \<and> h2o_sat st ! i = 999 \<and>
         level_body vpop t p h2o i st0 = Inr st0 \<and>
         t_ice (equilibrium vpop T P q j st0) ! i = t_ice st0 ! i \<and>
         p_ice (equilibrium vpop T P q j st0) ! i = p_ice st0 ! i \<and>
         s_ice (equilibrium vpop T P q j st0) ! i = s_ice st0 ! i \<and>
         v_ice (equilibrium vpop T P q j st0) ! i = v_ice st0 ! i \<and>
         m_ice (equilibrium vpop T P q j st0) ! i = m_ice st0 ! i \<and>
         h2o_ice (equilibrium vpop T P q j st0) ! i = h2o_ice st0 ! i \<and>
         h2o_sat (equilibrium vpop T P q j st0) ! i = h2o_sat st0 ! i"
proof -
  have "i < length t" using level_loop_in_range [OF run, of i] i by simp
  then have "level_body vpop t p h2o i st0 = Inr st0" using cold by (rule level_body_skip)
  moreover have "i \<noteq> j" using other by simp
  ultimately show ?thesis
    using level_loop_frame [OF run cold] i equilibrium_frame [of i j vpop T P q st0]
    by (simp add: allocate_def)
qed

theorem skipped_levels_keep_defaults_witness:
  "level_loop 1 [0, -5] [1, 1] [1, 1] [0..<2] (allocate 2) = Inr (allocate 2) \<and>
   t_ice (allocate 2) ! 1 = 0 \<and> h2o_sat (allocate 2) ! 1 = 999 \<and>
   level_body 1 [0, -5] [1, 1] [1, 1] 1 (allocate 2) = Inr (allocate 2) \<and>
   p_ice (equilibrium 1 140 0.01 8 0 (allocate 2)) ! 1 = 0"
proof -
  have run: "level_loop 1 [0, -5] [1, 1] [1, 1] [0..<2] (allocate 2) = Inr (allocate 2)"
    by (simp add: level_body_def upt_rec)
  have i: "(1::nat) < 2" by simp
  have cold: "[0, -5::real] ! 1 \<le> 0" by simp
  have other: "(0::nat) \<noteq> 1" by simp
  show ?thesis
    using run
      skipped_levels_keep_defaults [OF run i cold other, of "allocate 2" 140 "0.01" 8]
    by (simp add: allocate_def)
qed

section \<open>The layer\<close>

lemma layer_select_raises: "layer_select z mi = Inl TypeError"
  by (simp add: layer_select_def)

text \<open>The routine returns through no path: a rejected selector exits, a level with a
  positive temperature raises at line 151, and line 165 raises for every profile.\<close>

lemma pmc_never_returns: "\<exists>e. pmc_0d_model2b z p t h2o vpop constdz = Inl e"
  by (auto simp: pmc_0d_model2b_def layer_summary_def layer_select_raises split: sum.splits)

subsection \<open>Peak, top and bottom of an index array\<close>

lemma py_max_Max: "xs \<noteq> [] \<Longrightarrow> py_max xs = Inr (Max (set xs))"
proof (cases xs)
  case Nil
  then show "xs \<noteq> [] \<Longrightarrow> ?thesis" by simp
next
  case (Cons a r)
  then show ?thesis using Max.set_eq_fold [of a r] by (simp add: py_max_def)
qed

lemma py_min_Min: "xs \<noteq> [] \<Longrightarrow> py_min xs = Inr (Min (set xs))"
proof (cases xs)
  case Nil
  then show "xs \<noteq> [] \<Longrightarrow> ?thesis" by simp
next
  case (Cons a r)
  then show ?thesis using Min.set_eq_fold [of a r] by (simp add: py_min_def)
qed

lemma filter_upt_least:
  assumes "j < n" "P j"
  shows "filter P [0..<n] \<noteq> [] \<and> filter P [0..<n] ! 0 < n \<and> P (filter P [0..<n] ! 0) \<and>
         (\<forall>i < filter P [0..<n] ! 0. \<not> P i)"
proof -
  define m where "m = (LEAST i. P i)"
  have Pm: "P m" unfolding m_def using assms(2) by (rule LeastI)
  have mle: "m \<le> j" unfolding m_def using assms(2) by (rule Least_le)
  have least: "\<not> P i" if "i < m" for i
    using that not_less_Least unfolding m_def by blast
  have mn: "m < n" using mle assms(1) by simp
  have "filter P [0..<n] \<noteq> [] \<and> filter P [0..<n] ! 0 = m"
    using mn Pm least by (rule filter_upt_first)
  then show ?thesis using mn Pm least by simp
qed


text \<open>Lines 171-178 for a non-empty index array \<open>k\<close>: the local \<^verbatim>\<open>zmax\<close> is the
  altitude at the first index of \<open>k\<close> where \<^verbatim>\<open>m_ice\<close> is largest, \<^verbatim>\<open>ztop\<close> and
  \<^verbatim>\<open>zbot\<close> are the largest and the smallest altitude over \<open>k\<close>.\<close>

theorem layer_peak_values:
  assumes "k \<noteq> []"
  shows "\<exists>i < length k.
           layer_peak z mi k
             = Inr \<lparr>zmax = z ! (k ! i), ztop = Max (set (map (\<lambda>j. z ! j) k)),
                    zbot = Min (set (map (\<lambda>j. z ! j) k))\<rparr> \<and>
           mi ! (k ! i) = Max (set (map (\<lambda>j. mi ! j) k)) \<and>
           (\<forall>i' < i. mi ! (k ! i') \<noteq> Max (set (map (\<lambda>j. mi ! j) k)))"
proof -
  define mk where "mk = map (\<lambda>j. mi ! j) k"
  define zk where "zk = map (\<lambda>j. z ! j) k"
  define mx where "mx = Max (set mk)"
  define l where "l = filter (\<lambda>j. mk ! j = mx) [0..<length mk]"
  have ne: "mk \<noteq> []" "zk \<noteq> []" using assms by (simp_all add: mk_def zk_def)
  have len: "length mk = length k" by (simp add: mk_def)
  have "mx \<in> set mk" unfolding mx_def using ne by (intro Max_in) auto
  then obtain j where j: "j < length mk" "mk ! j = mx" by (auto simp: in_set_conv_nth)
  have l: "l \<noteq> [] \<and> l ! 0 < length mk \<and> mk ! (l ! 0) = mx \<and> (\<forall>i < l ! 0. mk ! i \<noteq> mx)"
    unfolding l_def using j by (rule filter_upt_least)
  have "layer_peak z mi k =
      (case py_max mk of Inl e \<Rightarrow> Inl e | Inr m \<Rightarrow>
         (let l' = filter (\<lambda>j. mk ! j = m) [0..<length mk]
          in if l' = [] then Inl IndexError
             else (case py_max zk of Inl e \<Rightarrow> Inl e | Inr zt \<Rightarrow>
               (case py_min zk of Inl e \<Rightarrow> Inl e | Inr zb \<Rightarrow>
                  Inr \<lparr>zmax = z ! (k ! (l' ! 0)), ztop = zt, zbot = zb\<rparr>))))"
    unfolding layer_peak_def mk_def zk_def Let_def ..
  also have "\<dots> = Inr \<lparr>zmax = z ! (k ! (l ! 0)), ztop = Max (set zk), zbot = Min (set zk)\<rparr>"
    using l unfolding py_max_Max [OF ne(1)] py_max_Max [OF ne(2)] py_min_Min [OF ne(2)]
    by (simp add: mx_def [symmetric] l_def [symmetric])
  finally have peak: "layer_peak z mi k
      = Inr \<lparr>zmax = z ! (k ! (l ! 0)), ztop = Max (set zk), zbot = Min (set zk)\<rparr>" .
  have i: "l ! 0 < length k" using l len by simp
  have a: "mi ! (k ! (l ! 0)) = mx" using l i by (simp add: mk_def)
  have b: "\<forall>i' < l ! 0. mi ! (k ! i') \<noteq> mx"
  proof (intro allI impI)
    fix i' assume "i' < l ! 0"
    then have "mk ! i' \<noteq> mx" "i' < length k" using l i by auto
    then show "mi ! (k ! i') \<noteq> mx" by (simp add: mk_def)
  qed
  show ?thesis
    using i peak a b unfolding mx_def mk_def zk_def by blast
qed

theorem layer_peak_values_witness:
  "\<exists>i < length [1, 2, 3 :: nat].
     layer_peak [80, 82, 84, 86] [0, 3, 3, 1] [1, 2, 3]
       = Inr \<lparr>zmax = [80, 82, 84, 86] ! ([1, 2, 3] ! i),
              ztop = Max (set (map (\<lambda>j. [80, 82, 84, 86] ! j) [1, 2, 3])),
              zbot = Min (set (map (\<lambda>j. [80, 82, 84, 86] ! j) [1, 2, 3]))\<rparr>"
proof -
  have ne: "[1, 2, 3 :: nat] \<noteq> []" by simp
  from layer_peak_values [OF ne, of "[80, 82, 84, 86]" "[0, 3, 3, 1]"]
  show ?thesis by blast
qed

subsection \<open>The summary and the column\<close>

text \<open>
  C4. The claim: with \<open>K\<close> the levels between 80 and 95 km that hold ice, the summary is
  all zero when \<open>K\<close> is empty, and otherwise gives the peak, top and bottom altitudes of
  \<open>K\<close>. In the code the selection of line 165 raises TypeError, for a profile with an
  ice level at 85 km and for a profile with no ice at all; and for an index array
  \<open>K = [1]\<close> handed to lines 167-185, \<^verbatim>\<open>Zmax\<close> is still 0 afterwards.
\<close>

theorem layer_selection_raises:
  "layer_summary [85] None ((allocate 1)\<lparr>m_ice := [1]\<rparr>) = Inl TypeError \<and>
   pmc_0d_model2b [85] [1] [0] [1] 1 None = Inl TypeError \<and>
   layer_scan [80, 85, 90] [0, 1, 0] None [1] (allocate 3) = Inr ((allocate 3)\<lparr>iwc := 5\<rparr>) \<and>
   Zmax ((allocate 3)\<lparr>iwc := 5\<rparr>) = 0"
  by (simp add: layer_summary_def layer_select_raises pmc_0d_model2b_def housekeeping_def
      vpop_not_valid_iff level_body_def layer_scan_def layer_peak_def py_max_def py_min_def
      first_dz_def np_index_def allocate_def)

text \<open>
  C2. The claim: with \<^verbatim>\<open>constdz\<close> unset the spacing is the centered difference of each
  level, and the spacing of the first two samples is used only when a fixed spacing is
  asked for. On the altitudes 80, 81, 83, 86 with ice at the two middle levels, lines
  180-185 with \<^verbatim>\<open>constdz\<close> unset use the one spacing \<open>|81 - 80| = 1\<close> (column 2), and
  with \<^verbatim>\<open>constdz\<close> set they use the centered differences 1.5 and 2.5 (column 4).
\<close>

theorem column_spacing_inverted:
  "layer_scan [80, 81, 83, 86] [0, 1, 1, 0] None [1, 2] (allocate 4)
     = Inr ((allocate 4)\<lparr>iwc := 2\<rparr>) \<and>
   layer_scan [80, 81, 83, 86] [0, 1, 1, 0] (Some 1) [1, 2] (allocate 4)
     = Inr ((allocate 4)\<lparr>iwc := 4\<rparr>)"
  by (simp add: layer_scan_def layer_peak_def py_max_def py_min_def first_dz_def
      np_index_def centered_dz_def allocate_def)

text \<open>
  C9, as stated: at the first and the last level the centered difference does not read
  outside the array and does not wrap, but uses a one-sided difference. With the
  altitudes 81, 82, 83 and the layer at the last level, line 184 raises IndexError; with
  the layer at the first level it reads \<^verbatim>\<open>z[-1]\<close>, the last sample, and the spacing is
  \<open>|82 - 83| / 2\<close>.
\<close>

theorem centered_difference_unchecked_counterexample:
  "layer_scan [81, 82, 83] [0, 0, 1] (Some 1) [2] (allocate 3) = Inl IndexError \<and>
   layer_scan [81, 82, 83] [1, 0, 0] (Some 1) [0] (allocate 3)
     = Inr ((allocate 3)\<lparr>iwc := 0.5\<rparr>)"
  by (simp add: layer_scan_def layer_peak_def py_max_def py_min_def first_dz_def
      np_index_def centered_dz_def allocate_def)

text \<open>
  C9, amended: the reads of \<^verbatim>\<open>z[k+1]\<close> and \<^verbatim>\<open>z[k-1]\<close> on line 184 are not
  bounds-checked and no one-sided difference is used. At an interior index both reads
  are in range and the spacing is \<open>|z[k+1] - z[k-1]| / 2\<close>; at the last level the read
  of \<^verbatim>\<open>z[k+1]\<close> raises IndexError; at the first level \<^verbatim>\<open>z[k-1]\<close> is the last sample.
\<close>

theorem centered_difference_reads:
  "centered_dz z ki =
     (if ki + 1 < length z then
        (if 0 < ki then Inr (abs (z ! (ki + 1) - z ! (ki - 1)) * 0.5)
         else Inr (abs (z ! 1 - z ! (length z - 1)) * 0.5))
      else Inl IndexError)"
  by (auto simp: centered_dz_def np_index_def nat_add_distrib nat_diff_distrib
      int_ops split: if_splits)

end
